theory Spec2Isabelle
  imports Main "HOL-Library.Word"
begin

unbundle bit_operations_syntax

section \<open>The server bootstrap of typesense\_server\_utils.cpp\<close>

text \<open>
  The development embeds \<^verbatim>\<open>src/typesense_server_utils.cpp\<close>: the node-list loader
  (\<^verbatim>\<open>fetch_file_contents\<close>, \<^verbatim>\<open>fetch_nodes_config\<close>), the address selection
  (\<^verbatim>\<open>is_private_ip\<close>, \<^verbatim>\<open>get_internal_ip\<close>), the logger set-up
  (\<^verbatim>\<open>init_root_logger\<close>), the peering bootstrap with its maintenance loop
  (\<^verbatim>\<open>start_raft_server\<close>) and the process driver (\<^verbatim>\<open>run_server\<close>).

  Everything the file calls but does not define (the file system, the address parser of butil,
  the string helpers, the brpc server, the replication state, the HTTP server) is a field of
  the record \<open>world\<close> or an event of the trace; the definitions below follow the source line
  by line on top of these.
\<close>

subsection \<open>Data\<close>

type_synonym u8 = "8 word"
type_synonym u32 = "32 word"
type_synonym size_t = "64 word"

text \<open>
  The class \<^verbatim>\<open>Option<T>\<close> of the repository holds either a value or an error code with a
  message. It is a sum here: \<open>Inl (code, message)\<close> is the error, \<open>Inr v\<close> the value;
  \<^verbatim>\<open>ok()\<close> is \<open>isr\<close>, \<^verbatim>\<open>error()\<close> the second component of the left injection.
\<close>

type_synonym 'a Option_t = "(nat \<times> string) + 'a"

text \<open>
  What \<^verbatim>\<open>file_exists\<close> (file\_utils.h) answers for a path, and the bytes that the
  \<^verbatim>\<open>std::ifstream\<close> iterator pair yields for it.
\<close>

record filesystem =
  file_exists :: "string \<Rightarrow> bool"
  file_bytes :: "string \<Rightarrow> string"

subsection \<open>Loading the node list\<close>

definition fetch_file_contents :: "filesystem \<Rightarrow> string \<Rightarrow> string Option_t" where
  "fetch_file_contents fs file_path =
     (if \<not> file_exists fs file_path
      then Inl (404, ''File does not exist at: '' @ file_path)
      else Inr (file_bytes fs file_path))"

definition fetch_nodes_config :: "filesystem \<Rightarrow> string \<Rightarrow> string Option_t" where
  "fetch_nodes_config fs path_to_nodes =
     (if path_to_nodes \<noteq> [] then
        (case fetch_file_contents fs path_to_nodes of
           Inl (code, err) \<Rightarrow>
             Inl (500, ''Error reading file containing nodes configuration: '' @ err)
         | Inr nodes_config \<Rightarrow>
             if nodes_config = []
             then Inl (500, ''File containing nodes configuration is empty.'')
             else Inr nodes_config)
      else Inr [])"

text \<open>The white space of the C locale (\<^verbatim>\<open>isspace\<close>): space, and the bytes 9 to 13.\<close>

definition isspace :: "char \<Rightarrow> bool" where
  "isspace c = (c = CHR '' '' \<or> ((9::nat) \<le> of_char c \<and> of_char c \<le> (13::nat)))"

text \<open>Two concrete file systems: one file \<^verbatim>\<open>nodes\<close>, holding the given bytes; and no file.\<close>

definition fs_with :: "string \<Rightarrow> filesystem" where
  "fs_with content =
     \<lparr>file_exists = (\<lambda>p. p = ''nodes''),
      file_bytes = (\<lambda>p. if p = ''nodes'' then content else [])\<rparr>"

definition fs_none :: filesystem where
  "fs_none = \<lparr>file_exists = (\<lambda>p. False), file_bytes = (\<lambda>p. [])\<rparr>"

subsection \<open>The outside of the file\<close>

text \<open>
  An entry of the list that \<^verbatim>\<open>getifaddrs\<close> returns. \<open>ifa_addr\<close> is \<open>None\<close> for a null
  pointer; an address of family \<^verbatim>\<open>AF_INET\<close> is \<open>sockaddr_in\<close>, any other family keeps
  its number only. Every IPv4 address of the model is the host-order value, that is, what
  \<^verbatim>\<open>ntohl\<close> gives for the \<^verbatim>\<open>s_addr\<close> of the source: 10.0.0.1 is \<open>0x0A000001\<close>.
  \<^verbatim>\<open>ntohl\<close> permutes bytes, so an \<^verbatim>\<open>s_addr\<close> is zero exactly when its host-order
  value is.
\<close>

datatype sockaddr = sockaddr_in (sin_addr: u32) | sockaddr_other (sa_family: nat)

record ifaddrs =
  ifa_name :: string
  ifa_addr :: "sockaddr option"

text \<open>One observation of the loop condition of \<^verbatim>\<open>start_raft_server\<close> and of the file
  system during the iteration that follows it.\<close>

record tick =
  IsAskedToQuit :: bool
  quit_raft_service :: bool
  tick_fs :: filesystem

text \<open>
  What the file reads from outside:
  \<^item> \<open>getifaddrs\<close>: the interface list;
  \<^item> \<open>StringUtils_split s d\<close>: the parts that \<^verbatim>\<open>StringUtils::split(s, parts, d)\<close> produces;
  \<^item> \<open>str2ip s\<close>: \<open>Some a\<close> when \<^verbatim>\<open>butil::str2ip\<close> returns 0 and stores \<open>a\<close>, \<open>None\<close> otherwise;
  \<^item> \<open>is_uint32_t\<close>, \<open>stoll\<close>: \<^verbatim>\<open>StringUtils::is_uint32_t\<close> and \<^verbatim>\<open>std::stoll\<close>;
  \<^item> \<open>inet_ntoa\<close>: the text of an address;
  \<^item> \<open>directory_exists\<close>, \<open>boot_fs\<close>: the directories, and the files at the first read of the
    node list;
  \<^item> \<open>using_jemalloc\<close>: whether the weak symbol \<^verbatim>\<open>mallctl\<close> is resolved;
  \<^item> \<open>add_service\<close>, \<open>raft_server_Start\<close>, \<open>replication_state_start\<close>: the statuses that
    \<^verbatim>\<open>braft::add_service\<close>, \<^verbatim>\<open>raft_server.Start\<close> and \<^verbatim>\<open>replication_state.start\<close> return;
  \<^item> \<open>to_nodes_config\<close>: \<^verbatim>\<open>ReplicationState::to_nodes_config\<close>;
  \<^item> \<open>ticks\<close>: what the maintenance loop observes, one entry for each evaluation of its
    condition.
\<close>

record world =
  getifaddrs :: "ifaddrs list"
  StringUtils_split :: "string \<Rightarrow> string \<Rightarrow> string list"
  str2ip :: "string \<Rightarrow> u32 option"
  is_uint32_t :: "string \<Rightarrow> bool"
  stoll :: "string \<Rightarrow> int"
  inet_ntoa :: "u32 \<Rightarrow> string"
  directory_exists :: "string \<Rightarrow> bool"
  boot_fs :: filesystem
  using_jemalloc :: bool
  add_service :: int
  raft_server_Start :: int
  replication_state_start :: int
  to_nodes_config :: "u32 \<times> u32 \<Rightarrow> u32 \<Rightarrow> string \<Rightarrow> string"
  ticks :: "tick list"

subsection \<open>Choosing the peering address\<close>

definition is_private_ip :: "u32 \<Rightarrow> bool" where
  "is_private_ip ip =
     (let b1 = (ucast (drop_bit 24 ip) :: u8);
          b2 = (ucast (drop_bit 16 ip AND 0x0ff) :: u8)
      in if b1 = 10 then True
         else if b1 = 172 \<and> 16 \<le> b2 \<and> b2 \<le> 31 then True
         else if b1 = 192 \<and> b2 = 168 then True
         else False)"

text \<open>
  Lines 198 to 213 of \<^verbatim>\<open>get_internal_ip\<close>: the pair \<^verbatim>\<open>(netip, netbits)\<close>, both zero
  unless the text splits at the slash into two parts, the first parses as an address and
  (for \<^verbatim>\<open>netbits\<close>) the second is an unsigned number. The assignment of the
  \<^verbatim>\<open>long long\<close> to the \<^verbatim>\<open>uint32_t\<close> keeps the low 32 bits.
\<close>

definition subnet_of :: "world \<Rightarrow> string \<Rightarrow> u32 \<times> u32" where
  "subnet_of w subnet_cidr =
     (if subnet_cidr \<noteq> [] then
        (let subnet_parts = StringUtils_split w subnet_cidr ''/'' in
         if length subnet_parts = 2 then
           (case str2ip w (subnet_parts ! 0) of
              Some subnet_addr \<Rightarrow>
                (subnet_addr,
                 if is_uint32_t w (subnet_parts ! 1)
                 then word_of_int (stoll w (subnet_parts ! 1)) else 0)
            | None \<Rightarrow> (0, 0))
         else (0, 0))
      else (0, 0))"

text \<open>
  The loop over the interfaces (lines 219 to 241). The result is the text returned, or
  \<open>None\<close> where the source has no defined behaviour: \<^verbatim>\<open>0xFFFFFFFF << (32 - netbits)\<close>
  shifts a 32-bit value, and \<^verbatim>\<open>32 - netbits\<close> is computed in \<^verbatim>\<open>uint32_t\<close>, so a prefix
  length above 32 wraps to a shift count of 32 or more.
\<close>

fun scan_ifaddrs :: "world \<Rightarrow> u32 \<Rightarrow> u32 \<Rightarrow> ifaddrs list \<Rightarrow> string option" where
  "scan_ifaddrs w netip netbits [] = Some ''127.0.0.1''"
| "scan_ifaddrs w netip netbits (ifa # ifa_next) =
     (case ifa_addr ifa of
        Some (sockaddr_in ipaddr) \<Rightarrow>
          if is_private_ip ipaddr then
            if netip \<noteq> 0 \<and> netbits \<noteq> 0 then
              if 32 \<le> 32 - netbits then None
              else
                (let mask = push_bit (unat (32 - netbits)) (0xFFFFFFFF :: u32) in
                 if netip AND mask \<noteq> ipaddr AND mask
                 then scan_ifaddrs w netip netbits ifa_next
                 else Some (inet_ntoa w ipaddr))
            else Some (inet_ntoa w ipaddr)
          else scan_ifaddrs w netip netbits ifa_next
      | _ \<Rightarrow> scan_ifaddrs w netip netbits ifa_next)"

definition get_internal_ip :: "world \<Rightarrow> string \<Rightarrow> string option" where
  "get_internal_ip w subnet_cidr =
     (case subnet_of w subnet_cidr of
        (netip, netbits) \<Rightarrow> scan_ifaddrs w netip netbits (getifaddrs w))"

text \<open>
  The words of the specification, for comparison with the loop: the IPv4 addresses of the
  interfaces in their order, and membership of an address in the subnet of a network address
  and a prefix length (the leading \<open>bits\<close> bits agree).
\<close>

definition inet_addrs :: "ifaddrs list \<Rightarrow> u32 list" where
  "inet_addrs ifs =
     concat (map (\<lambda>ifa. case ifa_addr ifa of Some (sockaddr_in a) \<Rightarrow> [a] | _ \<Rightarrow> []) ifs)"

definition in_subnet :: "u32 \<Rightarrow> nat \<Rightarrow> u32 \<Rightarrow> bool" where
  "in_subnet net bits a = (drop_bit (32 - bits) a = drop_bit (32 - bits) net)"

definition peering_candidate :: "u32 \<Rightarrow> u32 \<Rightarrow> u32 \<Rightarrow> bool" where
  "peering_candidate netip netbits a =
     (is_private_ip a \<and> (netip \<noteq> 0 \<and> netbits \<noteq> 0 \<longrightarrow> in_subnet netip (unat netbits) a))"

subsection \<open>Calls and outcomes\<close>

text \<open>
  A thread's trace is the list of the calls it makes on the other components, in program
  order, with the \<^verbatim>\<open>LOG(WARNING)\<close> and \<^verbatim>\<open>LOG(ERROR)\<close> lines; \<^verbatim>\<open>LOG(INFO)\<close> lines and the
  arguments of constructors are left out. \<open>Quit_set b\<close> is an assignment of \<open>b\<close> to the global
  \<^verbatim>\<open>quit_raft_service\<close> by \<^verbatim>\<open>run_server\<close>; \<open>Thread_new\<close> and \<open>Thread_join\<close> name the
  \<^verbatim>\<open>std::thread\<close> object.
\<close>

datatype event =
    Log_warning string
  | Log_error string
  | Cerr string
  | Cout string
  | InitGoogleLogging
  | Logtostderr
  | SetLogDestination string
  | Mallctl_background_thread
  | Quit_set bool
  | ThreadPool_new string
  | Store_new string
  | Curl_global_init
  | HttpClient_init
  | HttpServer_new
  | HttpServer_set_auth_handler
  | HttpServer_on string
  | BatchedIndexer_new
  | CollectionManager_init
  | ReplicationState_new
  | Thread_new string
  | Thread_join string
  | Braft_add_service "u32 \<times> u32"
  | Raft_server_Start "u32 \<times> u32"
  | ReplicationState_start "u32 \<times> u32" u32 nat int string string
  | Refresh_nodes string
  | Refresh_catchup_status bool
  | Do_snapshot
  | Sleep u32
  | ReplicationState_shutdown
  | Raft_server_Stop
  | Raft_server_Join
  | BatchedIndexer_stop
  | ThreadPool_shutdown string
  | HttpServer_stop
  | Master_server_routes
  | HttpServer_run_call
  | BatchedIndexer_delete
  | Curl_global_cleanup
  | HttpServer_delete
  | CollectionManager_dispose

text \<open>
  How a function ends: it returns a value; it calls \<^verbatim>\<open>exit\<close>, which ends the process; it
  reaches undefined behaviour; or it is still inside the maintenance loop when the
  observations of the world are used up.
\<close>

datatype 'a outcome = Returns 'a | Exits int | Undefined | Runs

text \<open>The getters of \<^verbatim>\<open>Config\<close> that the file reads.\<close>

record Config =
  get_data_dir :: string
  get_log_dir :: string
  get_master :: string
  get_search_only_api_key :: string
  get_nodes :: string
  get_peering_address :: string
  get_peering_port :: u32
  get_peering_subnet :: string
  get_api_port :: u32
  get_snapshot_interval_seconds :: int

subsection \<open>The logger\<close>

text \<open>
  \<^verbatim>\<open>init_root_logger\<close>: the status returned, with the calls on glog and the two output
  streams; of the \<^verbatim>\<open>FLAGS_\<close> assignments only \<^verbatim>\<open>FLAGS_logtostderr\<close> is kept, and of the
  destinations only that of the level INFO.
\<close>

definition init_root_logger :: "world \<Rightarrow> Config \<Rightarrow> int \<times> event list" where
  "init_root_logger w config =
     (let log_dir = get_log_dir config in
      if log_dir = [] then (0, [InitGoogleLogging, Logtostderr])
      else if \<not> directory_exists w log_dir then
        (1, [InitGoogleLogging,
             Cerr (''Typesense failed to start. Log directory '' @ log_dir @ '' does not exist.'')])
      else
        (0, [InitGoogleLogging, SetLogDestination (log_dir @ ''/'' @ ''typesense.log''),
             Cout (''Log directory is configured as: '' @ log_dir)]))"

subsection \<open>The maintenance loop\<close>

text \<open>Lines 319 to 330: the two tasks after the membership refresh, the increment's sleep.\<close>

definition periodic_tasks :: "size_t \<Rightarrow> event list" where
  "periodic_tasks raft_counter =
     (if raft_counter mod 3 = 0
      then [Refresh_catchup_status (raft_counter mod 9 = 0)] else []) @
     (if raft_counter mod 60 = 0 then [Do_snapshot] else []) @
     [Sleep 1]"

text \<open>
  One pass through the body of the \<^verbatim>\<open>while\<close> (lines 306 to 330): the counter after it and
  the calls made. The \<^verbatim>\<open>continue\<close> of line 312 leaves the body with the counter as it was.
\<close>

definition loop_body ::
  "world \<Rightarrow> string \<Rightarrow> u32 \<times> u32 \<Rightarrow> u32 \<Rightarrow> filesystem \<Rightarrow> size_t \<Rightarrow> size_t \<times> event list" where
  "loop_body w path_to_nodes peering_endpoint api_port fs raft_counter =
     (if raft_counter mod 10 = 0 then
        (case fetch_nodes_config fs path_to_nodes of
           Inl (code, err) \<Rightarrow>
             (raft_counter,
              [Log_warning (''Error while refreshing peer configuration: '' @ err)])
         | Inr refreshed_nodes \<Rightarrow>
             (raft_counter + 1,
              Refresh_nodes (to_nodes_config w peering_endpoint api_port refreshed_nodes)
                # periodic_tasks raft_counter))
      else (raft_counter + 1, periodic_tasks raft_counter))"

text \<open>
  The \<^verbatim>\<open>while\<close> itself, one observation for each evaluation of its condition. The result
  says whether the loop was left, and gives the counter and the calls of each iteration.
  When the observations end before the condition fails, the loop is still running.
\<close>

fun maintenance_loop ::
  "world \<Rightarrow> string \<Rightarrow> u32 \<times> u32 \<Rightarrow> u32 \<Rightarrow> tick list \<Rightarrow> size_t
     \<Rightarrow> bool \<times> size_t \<times> event list list" where
  "maintenance_loop w path_to_nodes peering_endpoint api_port [] raft_counter =
     (False, raft_counter, [])"
| "maintenance_loop w path_to_nodes peering_endpoint api_port (t # ts) raft_counter =
     (if \<not> IsAskedToQuit t \<and> \<not> quit_raft_service t then
        (case loop_body w path_to_nodes peering_endpoint api_port (tick_fs t) raft_counter of
           (counter', calls) \<Rightarrow>
             (case maintenance_loop w path_to_nodes peering_endpoint api_port ts counter' of
                (left, counter'', iterations) \<Rightarrow> (left, counter'', calls # iterations)))
      else (True, raft_counter, []))"

subsection \<open>The peering service\<close>

text \<open>
  Lines 259 to 267 of \<^verbatim>\<open>start_raft_server\<close>: the address to bind, parsed from the configured
  text or from the text that \<^verbatim>\<open>get_internal_ip\<close> returns. \<open>Some None\<close> is a nonzero
  \<^verbatim>\<open>ip_conv_status\<close>; \<open>None\<close> is the undefined behaviour of \<^verbatim>\<open>get_internal_ip\<close>.
\<close>

definition resolve_peering_ip :: "world \<Rightarrow> string \<Rightarrow> string \<Rightarrow> u32 option option" where
  "resolve_peering_ip w peering_address peering_subnet =
     (if peering_address \<noteq> [] then Some (str2ip w peering_address)
      else map_option (str2ip w) (get_internal_ip w peering_subnet))"

text \<open>
  Lines 248 to 298 of \<^verbatim>\<open>start_raft_server\<close>, up to the loop: either the way the function
  ends there, or the peering endpoint with which the loop runs; in both cases with the calls
  made. \<^verbatim>\<open>election_timeout_ms\<close> is the constant 5000.
\<close>

definition peering_bootstrap ::
  "world \<Rightarrow> string \<Rightarrow> string \<Rightarrow> string \<Rightarrow> u32 \<Rightarrow> string \<Rightarrow> u32 \<Rightarrow> int
     \<Rightarrow> (int outcome + u32 \<times> u32) \<times> event list" where
  "peering_bootstrap w state_dir path_to_nodes peering_address peering_port peering_subnet
       api_port snapshot_interval_seconds =
     (case fetch_nodes_config (boot_fs w) path_to_nodes of
        Inl (code, err) \<Rightarrow> (Inl (Exits (- 1)), [Log_error err])
      | Inr nodes_config \<Rightarrow>
          (case resolve_peering_ip w peering_address peering_subnet of
             None \<Rightarrow> (Inl Undefined, [])
           | Some None \<Rightarrow>
               (Inl (Returns (- 1)),
                [Log_error (''Failed to parse peering address `'' @ peering_address @ ''`'')])
           | Some (Some peering_ip) \<Rightarrow>
               (let peering_endpoint = (peering_ip, peering_port) in
                if add_service w \<noteq> 0 then
                  (Inl (Exits (- 1)),
                   [Braft_add_service peering_endpoint,
                    Log_error ''Failed to add peering service''])
                else if raft_server_Start w \<noteq> 0 then
                  (Inl (Exits (- 1)),
                   [Braft_add_service peering_endpoint, Raft_server_Start peering_endpoint,
                    Log_error ''Failed to start peering service''])
                else if replication_state_start w \<noteq> 0 then
                  (Inl (Exits (- 1)),
                   [Braft_add_service peering_endpoint, Raft_server_Start peering_endpoint,
                    ReplicationState_start peering_endpoint api_port 5000
                      snapshot_interval_seconds state_dir nodes_config,
                    Log_error ''Failed to start peering state''])
                else
                  (Inr peering_endpoint,
                   [Braft_add_service peering_endpoint, Raft_server_Start peering_endpoint,
                    ReplicationState_start peering_endpoint api_port 5000
                      snapshot_interval_seconds state_dir nodes_config]))))"

definition start_raft_server ::
  "world \<Rightarrow> string \<Rightarrow> string \<Rightarrow> string \<Rightarrow> u32 \<Rightarrow> string \<Rightarrow> u32 \<Rightarrow> int
     \<Rightarrow> int outcome \<times> event list" where
  "start_raft_server w state_dir path_to_nodes peering_address peering_port peering_subnet
       api_port snapshot_interval_seconds =
     (case peering_bootstrap w state_dir path_to_nodes peering_address peering_port
             peering_subnet api_port snapshot_interval_seconds of
        (Inl ended, calls) \<Rightarrow> (ended, calls)
      | (Inr peering_endpoint, calls) \<Rightarrow>
          (case maintenance_loop w path_to_nodes peering_endpoint api_port (ticks w) 0 of
             (left, raft_counter, iterations) \<Rightarrow>
               if left then
                 (Returns 0,
                  calls @ concat iterations @
                  [ReplicationState_shutdown, Raft_server_Stop, Raft_server_Join])
               else (Runs, calls @ concat iterations)))"

subsection \<open>The process\<close>

text \<open>
  The body of the thread \<^verbatim>\<open>raft_thread\<close> (lines 451 to 481). The value that
  \<^verbatim>\<open>start_raft_server\<close> returns is not read; when it does not return, the thread does not
  go on.
\<close>

definition raft_thread :: "world \<Rightarrow> Config \<Rightarrow> unit outcome \<times> event list" where
  "raft_thread w config =
     (case start_raft_server w (get_data_dir config @ ''/state'') (get_nodes config)
             (get_peering_address config) (get_peering_port config)
             (get_peering_subnet config) (get_api_port config)
             (get_snapshot_interval_seconds config) of
        (Returns status, calls) \<Rightarrow>
          (Returns (),
           [Thread_new ''batch_indexing_thread''] @ calls @
           [BatchedIndexer_stop, Thread_join ''batch_indexing_thread'',
            ThreadPool_shutdown ''server_thread_pool'',
            ThreadPool_shutdown ''app_thread_pool'', HttpServer_stop])
      | (Exits status, calls) \<Rightarrow> (Exits status, [Thread_new ''batch_indexing_thread''] @ calls)
      | (Undefined, calls) \<Rightarrow> (Undefined, [Thread_new ''batch_indexing_thread''] @ calls)
      | (Runs, calls) \<Rightarrow> (Runs, [Thread_new ''batch_indexing_thread''] @ calls))"

text \<open>
  Modelled from the spec: \<^verbatim>\<open>HttpServer::run\<close> is declared in http\_server.h, which is not
  part of the sources at hand. \<^verbatim>\<open>run_server\<close> returns what this call returned, and the
  specification gives the exit code 0 to a normal shutdown: the request loop, once
  stopped, returns 0.
\<close>

definition HttpServer_run :: int where
  "HttpServer_run = 0"

text \<open>
  \<^verbatim>\<open>run_server\<close>: how the process ends, the trace of the main thread and the trace of the
  peering thread. Everything the main thread does before it constructs \<^verbatim>\<open>raft_thread\<close>
  happens before the first call of the peering thread, and everything it does after the
  join happens after the last one. When the peering thread does not return, the trace of the
  main thread is given up to the construction of the thread.
\<close>

definition run_server :: "world \<Rightarrow> Config \<Rightarrow> int outcome \<times> event list \<times> event list" where
  "run_server w config =
     (let allocator =
            (if using_jemalloc w then [Mallctl_background_thread]
             else [Log_warning ''Typesense is NOT using jemalloc.'']) @ [Quit_set False]
      in
      if \<not> directory_exists w (get_data_dir config) then
        (Returns 1,
         allocator @
         [Log_error (''Typesense failed to start. Data directory '' @ get_data_dir config @
                     '' does not exist.'')],
         [])
      else if get_master config \<noteq> [] then
        (Returns 1,
         allocator @
         [Log_error (''The --master option has been deprecated. Please use clustering for high availability. '' @
                     ''Look for the --nodes configuration in the documentation.'')],
         [])
      else
        (let constructed =
               allocator @
               (if get_search_only_api_key config \<noteq> [] then
                  [Log_warning ''!!!! WARNING !!!!'',
                   Log_warning (''The --search-only-api-key has been deprecated. '' @
                     ''The API key generation end-point should be used for generating keys with specific ACL.'')]
                else []) @
               [ThreadPool_new ''app_thread_pool'', ThreadPool_new ''server_thread_pool'',
                Store_new (get_data_dir config @ ''/db''),
                Store_new (get_data_dir config @ ''/meta''),
                Curl_global_init, HttpClient_init, HttpServer_new,
                HttpServer_set_auth_handler,
                HttpServer_on ''STREAM_RESPONSE_MESSAGE'',
                HttpServer_on ''REQUEST_PROCEED_MESSAGE'',
                HttpServer_on ''DEFER_PROCESSING_MESSAGE'',
                BatchedIndexer_new, CollectionManager_init, ReplicationState_new,
                Thread_new ''raft_thread'']
         in
         (case raft_thread w config of
            (Returns u, peering) \<Rightarrow>
              (Returns HttpServer_run,
               constructed @
               [Master_server_routes, HttpServer_run_call, Quit_set True,
                Thread_join ''raft_thread'', BatchedIndexer_delete, Curl_global_cleanup,
                HttpServer_delete, CollectionManager_dispose],
               peering)
          | (Exits status, peering) \<Rightarrow> (Exits status, constructed, peering)
          | (Undefined, peering) \<Rightarrow> (Undefined, constructed, peering)
          | (Runs, peering) \<Rightarrow> (Runs, constructed, peering))))"

subsection \<open>The calls of the shutdown\<close>

definition teardown_call :: "event \<Rightarrow> bool" where
  "teardown_call e =
     (case e of
        ReplicationState_shutdown \<Rightarrow> True
      | Raft_server_Stop \<Rightarrow> True
      | Raft_server_Join \<Rightarrow> True
      | BatchedIndexer_stop \<Rightarrow> True
      | Thread_join name \<Rightarrow> True
      | ThreadPool_shutdown name \<Rightarrow> True
      | HttpServer_stop \<Rightarrow> True
      | _ \<Rightarrow> False)"

definition teardown_calls :: "event list \<Rightarrow> event list" where
  "teardown_calls calls = filter teardown_call calls"

subsection \<open>A concrete machine\<close>

text \<open>
  A host with the loopback interface, an interface without address and one interface at
  192.168.1.5; a data directory \<^verbatim>\<open>/data\<close>; a parser, a splitter and a printer that know
  the texts used below; a peering service that starts.
\<close>

definition lan_ifaddrs :: "ifaddrs list" where
  "lan_ifaddrs =
     [\<lparr>ifa_name = ''lo'', ifa_addr = Some (sockaddr_in 0x7F000001)\<rparr>,
      \<lparr>ifa_name = ''sit0'', ifa_addr = None\<rparr>,
      \<lparr>ifa_name = ''eth0'', ifa_addr = Some (sockaddr_in 0xC0A80105)\<rparr>]"

definition lan_world :: "filesystem \<Rightarrow> tick list \<Rightarrow> world" where
  "lan_world fs ts =
     \<lparr>getifaddrs = lan_ifaddrs,
      StringUtils_split =
        (\<lambda>s d. if s = ''10.0.0.0/8'' \<and> d = ''/'' then [''10.0.0.0'', ''8'']
               else if s = ''192.168.0.0/16'' \<and> d = ''/'' then [''192.168.0.0'', ''16'']
               else [s]),
      str2ip =
        map_of [(''10.0.0.0'', 0x0A000000), (''192.168.0.0'', 0xC0A80000),
                (''192.168.1.5'', 0xC0A80105), (''127.0.0.1'', 0x7F000001)],
      is_uint32_t = (\<lambda>s. s = ''8'' \<or> s = ''16''),
      stoll = (\<lambda>s. if s = ''8'' then 8 else if s = ''16'' then 16 else 0),
      inet_ntoa =
        (\<lambda>a. if a = 0xC0A80105 then ''192.168.1.5''
             else if a = 0x7F000001 then ''127.0.0.1'' else ''0.0.0.0''),
      directory_exists = (\<lambda>d. d = ''/data''),
      boot_fs = fs,
      using_jemalloc = True,
      add_service = 0,
      raft_server_Start = 0,
      replication_state_start = 0,
      to_nodes_config = (\<lambda>endpoint port nodes. nodes),
      ticks = ts\<rparr>"

definition lan_config :: Config where
  "lan_config =
     \<lparr>get_data_dir = ''/data'', get_log_dir = [], get_master = [],
      get_search_only_api_key = [], get_nodes = [], get_peering_address = ''127.0.0.1'',
      get_peering_port = 8107, get_peering_subnet = [], get_api_port = 8108,
      get_snapshot_interval_seconds = 3600\<rparr>"

definition tick_run :: "filesystem \<Rightarrow> tick" where
  "tick_run fs = \<lparr>IsAskedToQuit = False, quit_raft_service = False, tick_fs = fs\<rparr>"

definition tick_quit :: tick where
  "tick_quit = \<lparr>IsAskedToQuit = False, quit_raft_service = True, tick_fs = fs_none\<rparr>"

text \<open>
  An observation under which the loop goes on and the node list can be read; and four of
  them, with a node list of one entry.
\<close>

definition running :: "string \<Rightarrow> tick \<Rightarrow> bool" where
  "running path t = (\<not> IsAskedToQuit t \<and> \<not> quit_raft_service t \<and>
      \<not> isl (fetch_nodes_config (tick_fs t) path))"


definition ticks4 :: "tick list" where
  "ticks4 =
     [tick_run (fs_with ''10.0.0.1:8107:8108''), tick_run (fs_with ''10.0.0.1:8107:8108''),
      tick_run (fs_with ''10.0.0.1:8107:8108''), tick_run (fs_with ''10.0.0.1:8107:8108'')]"

subsection \<open>The quit flag\<close>















section \<open>Theorems\<close>

subsection \<open>The node-list loader\<close>

text \<open>
  C5. The load operation \<^verbatim>\<open>fetch_nodes_config\<close>, for every path: an empty path gives success
  with the empty node list; a non-empty path whose file is missing gives the read error (the
  IO kind: code 500, the message wraps the 404 message of \<^verbatim>\<open>fetch_file_contents\<close>); a
  non-empty path whose file exists with no content gives the configuration error (code 500,
  "File containing nodes configuration is empty."); a non-empty path whose file has content
  gives success with exactly that content.
\<close>

theorem fetch_nodes_config_cases:
  "(path = [] \<longrightarrow> fetch_nodes_config fs path = Inr []) \<and>
   (path \<noteq> [] \<and> \<not> file_exists fs path \<longrightarrow>
      fetch_nodes_config fs path =
        Inl (500, ''Error reading file containing nodes configuration: '' @
                  ''File does not exist at: '' @ path)) \<and>
   (path \<noteq> [] \<and> file_exists fs path \<and> file_bytes fs path = [] \<longrightarrow>
      fetch_nodes_config fs path =
        Inl (500, ''File containing nodes configuration is empty.'')) \<and>
   (path \<noteq> [] \<and> file_exists fs path \<and> file_bytes fs path \<noteq> [] \<longrightarrow>
      fetch_nodes_config fs path = Inr (file_bytes fs path))"
  by (simp add: fetch_nodes_config_def fetch_file_contents_def)

theorem fetch_nodes_config_cases_witness:
  "fetch_nodes_config fs_none [] = Inr [] \<and>
   fetch_nodes_config fs_none ''nodes'' =
     Inl (500, ''Error reading file containing nodes configuration: File does not exist at: nodes'') \<and>
   fetch_nodes_config (fs_with []) ''nodes'' =
     Inl (500, ''File containing nodes configuration is empty.'') \<and>
   fetch_nodes_config (fs_with ''10.0.0.1:8107:8108'') ''nodes'' = Inr ''10.0.0.1:8107:8108''"
  using fetch_nodes_config_cases [of "[]" fs_none]
        fetch_nodes_config_cases [of "''nodes''" fs_none]
        fetch_nodes_config_cases [of "''nodes''" "fs_with []"]
        fetch_nodes_config_cases [of "''nodes''" "fs_with ''10.0.0.1:8107:8108''"]
  by (simp add: fs_none_def fs_with_def)

text \<open>
  C10. For a non-empty path whose file exists and holds only white space, the load succeeds
  and returns the white space as it is; the configuration error is returned exactly when
  the path is non-empty, the file exists and its content has no byte at all.
\<close>

theorem fetch_nodes_config_whitespace:
  "(path \<noteq> [] \<and> file_exists fs path \<and> file_bytes fs path \<noteq> [] \<and>
      (\<forall>c \<in> set (file_bytes fs path). isspace c) \<longrightarrow>
        fetch_nodes_config fs path = Inr (file_bytes fs path)) \<and>
   (fetch_nodes_config fs path = Inl (500, ''File containing nodes configuration is empty.'')
      \<longleftrightarrow> path \<noteq> [] \<and> file_exists fs path \<and> file_bytes fs path = [])"
  by (auto simp add: fetch_nodes_config_def fetch_file_contents_def)

theorem fetch_nodes_config_whitespace_witness:
  "(\<forall>c \<in> set [CHR 0x0A]. isspace c) = True \<and>
   fetch_nodes_config (fs_with [CHR 0x0A]) ''nodes'' = Inr [CHR 0x0A] \<and>
   fetch_nodes_config (fs_with [CHR 0x0A]) ''nodes'' \<noteq>
     Inl (500, ''File containing nodes configuration is empty.'')"
  using fetch_nodes_config_whitespace [of "''nodes''" "fs_with [CHR 0x0A]"]
  by (simp add: fs_with_def isspace_def)

subsection \<open>The address selection\<close>

text \<open>
  The private range of \<^verbatim>\<open>is_private_ip\<close> is the union of the three blocks 10.0.0.0/8,
  172.16.0.0/12 and 192.168.0.0/16.
\<close>

lemma low_byte: "(ucast (x AND 0x0ff) :: u8) = ucast (x :: u32)"
proof -
  have "(0x0ff :: u32) = mask 8" by (simp add: mask_eq_exp_minus_1)
  then show ?thesis
    by (simp add: bit_eq_iff bit_simps)
qed

lemma byte_eq_numeral:
  "(ucast (x :: u32) :: u8) = numeral k \<longleftrightarrow> unat x mod 256 = numeral k mod 256"
proof -
  have "(ucast x :: u8) = numeral k \<longleftrightarrow> unat (ucast x :: u8) = unat (numeral k :: u8)"
    by (simp add: word_unat_eq_iff)
  then show ?thesis
    by (simp add: unsigned_ucast_eq take_bit_eq_mod unat_numeral)
qed

lemma byte_le_numeral:
  "(ucast (x :: u32) :: u8) \<le> numeral k \<longleftrightarrow> unat x mod 256 \<le> numeral k mod 256"
  "numeral k \<le> (ucast (x :: u32) :: u8) \<longleftrightarrow> numeral k mod 256 \<le> unat x mod 256"
  by (simp_all add: word_le_nat_alt unsigned_ucast_eq take_bit_eq_mod unat_numeral)

lemma private_blocks_arith: "(h::nat) < 65536 \<Longrightarrow>
  ((h div 256) mod 256 = 10 \<or>
      ((h div 256) mod 256 = 172 \<and> 16 \<le> h mod 256 \<and> h mod 256 \<le> 31) \<or>
      ((h div 256) mod 256 = 192 \<and> h mod 256 = 168)) \<longleftrightarrow> (h div 256 = 10 \<or> h div 16 = 2753 \<or> h = 49320)"
proof -
  assume h: "h < 65536"
  define q where "q = h div 256"
  define r where "r = h mod 256"
  have hq: "h = q * 256 + r" and r: "r < 256" by (simp_all add: q_def r_def)
  from h hq have q: "q < 256" by simp
  have m: "q mod 256 = q" using q by simp
  have a: "h div 16 = q * 16 + r div 16" unfolding hq by simp
  define s where "s = r div 16"
  have s: "s < 16" using r by (simp add: s_def less_mult_imp_div_less)
  have s1: "s = 1 \<longleftrightarrow> 16 \<le> r \<and> r \<le> 31" unfolding s_def by arith
  have "q * 16 + s = 2753 \<longleftrightarrow> q = 172 \<and> s = 1" using s by arith
  then have b: "h div 16 = 2753 \<longleftrightarrow> q = 172 \<and> 16 \<le> r \<and> r \<le> 31"
    unfolding a s_def [symmetric] s1 .
  have c: "h = 49320 \<longleftrightarrow> q = 192 \<and> r = 168" unfolding hq using r by arith
  show ?thesis unfolding b c q_def [symmetric] r_def [symmetric] m by simp
qed

lemma is_private_ip_ranges:
  "is_private_ip a \<longleftrightarrow>
     in_subnet 0x0A000000 8 a \<or> in_subnet 0xAC100000 12 a \<or> in_subnet 0xC0A80000 16 a"
proof -
  define h where "h = unat a div 65536"
  have "unat a < 4294967296" using unsigned_less [of a, where ?'a = nat] by simp
  then have h: "h < 65536" by (simp add: h_def less_mult_imp_div_less)
  have d24: "unat a div 16777216 = h div 256" and d20: "unat a div 1048576 = h div 16"
    by (simp_all add: h_def div_mult2_eq [symmetric])
  have "is_private_ip a \<longleftrightarrow>
      (unat a div 16777216) mod 256 = 10 \<or>
      ((unat a div 16777216) mod 256 = 172 \<and> 16 \<le> (unat a div 65536) mod 256 \<and>
        (unat a div 65536) mod 256 \<le> 31) \<or>
      ((unat a div 16777216) mod 256 = 192 \<and> (unat a div 65536) mod 256 = 168)"
    by (simp add: is_private_ip_def Let_def low_byte byte_eq_numeral byte_le_numeral
          unat_drop_bit_eq drop_bit_eq_div unat_div)
  then have l: "is_private_ip a \<longleftrightarrow>
      (h div 256) mod 256 = 10 \<or>
      ((h div 256) mod 256 = 172 \<and> 16 \<le> h mod 256 \<and> h mod 256 \<le> 31) \<or>
      ((h div 256) mod 256 = 192 \<and> h mod 256 = 168)"
    unfolding d24 h_def [symmetric] .
  have "in_subnet 0x0A000000 8 a \<longleftrightarrow> unat a div 16777216 = 10"
    "in_subnet 0xAC100000 12 a \<longleftrightarrow> unat a div 1048576 = 2753"
    "in_subnet 0xC0A80000 16 a \<longleftrightarrow> unat a div 65536 = 49320"
    by (simp_all add: in_subnet_def word_unat_eq_iff unat_drop_bit_eq drop_bit_eq_div unat_div)
  then have r: "in_subnet 0x0A000000 8 a \<longleftrightarrow> h div 256 = 10"
    "in_subnet 0xAC100000 12 a \<longleftrightarrow> h div 16 = 2753"
    "in_subnet 0xC0A80000 16 a \<longleftrightarrow> h = 49320"
    unfolding d24 d20 h_def [symmetric] .
  show ?thesis unfolding l r using private_blocks_arith [OF h] .
qed

text \<open>The test of the loop against the mask is membership in the subnet.\<close>

lemma and_high_mask_eq_iff:
  fixes x y :: u32
  shows "(x AND push_bit k (-1) = y AND push_bit k (-1)) \<longleftrightarrow> (drop_bit k y = drop_bit k x)"
proof
  assume L: "x AND push_bit k (-1) = y AND push_bit k (-1)"
  show "drop_bit k y = drop_bit k x"
  proof (rule bit_eqI)
    fix i
    from L have "bit (x AND push_bit k (-1)) (k + i) = bit (y AND push_bit k (-1)) (k + i)"
      by simp
    then show "bit (drop_bit k y) i = bit (drop_bit k x) i"
      by (auto simp add: bit_simps dest: bit_imp_le_length)
  qed
next
  assume R: "drop_bit k y = drop_bit k x"
  show "x AND push_bit k (-1) = y AND push_bit k (-1)"
  proof (rule bit_eqI)
    fix i
    show "bit (x AND push_bit k (-1)) i = bit (y AND push_bit k (-1)) i"
    proof (cases "k \<le> i")
      case True
      then obtain j where j: "i = k + j" using le_Suc_ex by blast
      from R have "bit (drop_bit k y) j = bit (drop_bit k x) j" by simp
      with j show ?thesis by (auto simp add: bit_simps)
    next
      case False
      then show ?thesis by (simp add: bit_simps)
    qed
  qed
qed

lemma shift_count_defined:
  fixes netbits :: u32
  assumes "netbits \<noteq> 0" "netbits \<le> 32"
  shows "\<not> 32 \<le> 32 - netbits" and "unat (32 - netbits) = 32 - unat netbits"
  using assms by unat_arith+

lemma subnet_test:
  fixes netip ipaddr netbits :: u32
  assumes "netbits \<noteq> 0" "netbits \<le> 32"
  shows "(netip AND push_bit (unat (32 - netbits)) 0xFFFFFFFF \<noteq>
          ipaddr AND push_bit (unat (32 - netbits)) 0xFFFFFFFF) \<longleftrightarrow>
         \<not> in_subnet netip (unat netbits) ipaddr"
proof -
  have "(0xFFFFFFFF :: u32) = - 1" by simp
  then show ?thesis
    using and_high_mask_eq_iff [of netip "unat (32 - netbits)" ipaddr]
    by (simp only: in_subnet_def shift_count_defined(2) [OF assms])
qed

lemma scan_ifaddrs_find:
  assumes "netbits \<le> 32"
  shows "scan_ifaddrs w netip netbits ifs =
         Some (case find (peering_candidate netip netbits) (inet_addrs ifs) of
                 None \<Rightarrow> ''127.0.0.1'' | Some a \<Rightarrow> inet_ntoa w a)"
proof (induction ifs)
  case Nil
  show ?case by (simp add: inet_addrs_def)
next
  case (Cons ifa ifs)
  show ?case
  proof (cases "ifa_addr ifa")
    case None
    with Cons show ?thesis by (simp add: inet_addrs_def)
  next
    case (Some sa)
    show ?thesis
    proof (cases sa)
      case (sockaddr_other fam)
      with Some Cons show ?thesis by (simp add: inet_addrs_def)
    next
      case (sockaddr_in a)
      show ?thesis
      proof (cases "netip \<noteq> 0 \<and> netbits \<noteq> 0")
        case False
        with sockaddr_in Some Cons show ?thesis
          by (auto simp add: inet_addrs_def peering_candidate_def)
      next
        case True
        then have nz: "netbits \<noteq> 0" by simp
        from sockaddr_in Some Cons True show ?thesis
          using subnet_test [OF nz assms, of netip a] shift_count_defined(1) [OF nz assms]
          by (auto simp add: inet_addrs_def peering_candidate_def Let_def)
      qed
    qed
  qed
qed

text \<open>
  C3, as amended. Let the subnet text give the network address \<open>netip\<close> and a prefix length
  \<open>netbits\<close> of at most 32; the constraint is in force when both are nonzero. A candidate is a
  private-range address that lies in the subnet when the constraint is in force. The
  resolver returns the text of the first candidate among the IPv4 addresses of the
  interfaces, so an address inside the constrained subnet whenever a private-range address
  satisfies the constraint; when there is no candidate it returns 127.0.0.1, also when
  private-range addresses exist outside the subnet. What it returns is 127.0.0.1 or the text
  of a private-range address of an interface.
\<close>

theorem get_internal_ip_first_candidate:
  assumes "subnet_of w subnet_cidr = (netip, netbits)" and "netbits \<le> 32"
  shows
    "get_internal_ip w subnet_cidr =
       Some (case find (peering_candidate netip netbits) (inet_addrs (getifaddrs w)) of
               None \<Rightarrow> ''127.0.0.1'' | Some a \<Rightarrow> inet_ntoa w a) \<and>
     ((\<exists>a \<in> set (inet_addrs (getifaddrs w)). peering_candidate netip netbits a) \<longrightarrow>
        (\<exists>a \<in> set (inet_addrs (getifaddrs w)).
           peering_candidate netip netbits a \<and>
           get_internal_ip w subnet_cidr = Some (inet_ntoa w a))) \<and>
     ((\<forall>a \<in> set (inet_addrs (getifaddrs w)). \<not> peering_candidate netip netbits a) \<longrightarrow>
        get_internal_ip w subnet_cidr = Some ''127.0.0.1'') \<and>
     (get_internal_ip w subnet_cidr = Some ''127.0.0.1'' \<or>
      (\<exists>a \<in> set (inet_addrs (getifaddrs w)).
         is_private_ip a \<and> get_internal_ip w subnet_cidr = Some (inet_ntoa w a)))"
proof -
  let ?addrs = "inet_addrs (getifaddrs w)"
  let ?P = "peering_candidate netip netbits"
  have eq: "get_internal_ip w subnet_cidr =
        Some (case find ?P ?addrs of None \<Rightarrow> ''127.0.0.1'' | Some a \<Rightarrow> inet_ntoa w a)"
    using assms by (simp add: get_internal_ip_def scan_ifaddrs_find)
  show ?thesis
  proof (cases "find ?P ?addrs")
    case None
    then have "\<forall>a \<in> set ?addrs. \<not> ?P a" by (simp add: find_None_iff)
    with eq None show ?thesis by auto
  next
    case (Some a)
    then have "a \<in> set ?addrs" and "?P a"
      by (auto simp add: find_Some_iff)
    moreover from \<open>?P a\<close> have "is_private_ip a" by (simp add: peering_candidate_def)
    ultimately show ?thesis using eq Some by auto
  qed
qed

theorem get_internal_ip_first_candidate_witness:
  "subnet_of (lan_world fs_none []) ''192.168.0.0/16'' = (0xC0A80000, 16) \<and>
   (16 :: u32) \<le> 32 \<and>
   peering_candidate 0xC0A80000 16 0xC0A80105 \<and>
   get_internal_ip (lan_world fs_none []) ''192.168.0.0/16'' = Some ''192.168.1.5''"
proof -
  have s: "subnet_of (lan_world fs_none []) ''192.168.0.0/16'' = (0xC0A80000, 16)"
    by (simp add: subnet_of_def lan_world_def)
  have b: "(16 :: u32) \<le> 32" by simp
  have c: "peering_candidate 0xC0A80000 16 0xC0A80105"
    by (simp add: peering_candidate_def is_private_ip_def in_subnet_def)
  have n: "\<not> peering_candidate 0xC0A80000 16 0x7F000001"
    by (simp add: peering_candidate_def is_private_ip_def)
  have a: "inet_addrs (getifaddrs (lan_world fs_none [])) = [0x7F000001, 0xC0A80105]"
    by (simp add: inet_addrs_def lan_world_def lan_ifaddrs_def)
  have "get_internal_ip (lan_world fs_none []) ''192.168.0.0/16'' = Some ''192.168.1.5''"
    using get_internal_ip_first_candidate [OF s b] c n
    by (simp add: a) (simp add: lan_world_def)
  with s b c show ?thesis by simp
qed

text \<open>
  C3 as stated fails: with the constraint 10.0.0.0/8 and the interfaces 127.0.0.1 and
  192.168.1.5, no private-range address satisfies the constraint and 192.168.1.5 is a
  private-range candidate without the constraint, yet the resolver returns 127.0.0.1.
\<close>

theorem get_internal_ip_no_fallback:
  "subnet_of (lan_world fs_none []) ''10.0.0.0/8'' = (0x0A000000, 8) \<and>
   inet_addrs (getifaddrs (lan_world fs_none [])) = [0x7F000001, 0xC0A80105] \<and>
   \<not> is_private_ip 0x7F000001 \<and>
   is_private_ip 0xC0A80105 \<and>
   \<not> in_subnet 0x0A000000 8 0xC0A80105 \<and>
   inet_ntoa (lan_world fs_none []) 0xC0A80105 = ''192.168.1.5'' \<and>
   get_internal_ip (lan_world fs_none []) ''10.0.0.0/8'' = Some ''127.0.0.1''"
  by (simp add: get_internal_ip_def subnet_of_def lan_world_def lan_ifaddrs_def inet_addrs_def
        is_private_ip_def in_subnet_def)

subsection \<open>The maintenance loop\<close>

lemma periodic_tasks_calls:
  "Refresh_nodes cfg \<notin> set (periodic_tasks t)"
  "Refresh_catchup_status b \<in> set (periodic_tasks t) \<longleftrightarrow> t mod 3 = 0 \<and> b = (t mod 9 = 0)"
  "Do_snapshot \<in> set (periodic_tasks t) \<longleftrightarrow> t mod 60 = 0"
  "Sleep 1 \<in> set (periodic_tasks t)"
  by (cases "t mod 3 = 0"; cases "t mod 60 = 0"; cases b; simp add: periodic_tasks_def)+

lemma loop_body_read_ok:
  assumes "\<not> isl (fetch_nodes_config fs path)"
  shows "loop_body w path ep port fs t =
           (t + 1,
            (if t mod 10 = 0
             then [Refresh_nodes (to_nodes_config w ep port (projr (fetch_nodes_config fs path)))]
             else []) @ periodic_tasks t)"
  using assms by (cases "fetch_nodes_config fs path") (auto simp add: loop_body_def)

lemma maintenance_loop_reads_ok:
  assumes "list_all (running path) ts"
  shows "maintenance_loop w path ep port ts (of_nat n) =
           (False, of_nat (n + length ts),
            map (\<lambda>(k, t). snd (loop_body w path ep port (tick_fs t) (of_nat k))) (enumerate n ts))"
  using assms
proof (induction ts arbitrary: n)
  case Nil
  show ?case by simp
next
  case (Cons t ts)
  from Cons.prems have t: "running path t" and ts: "list_all (running path) ts" by simp_all
  from t have body: "fst (loop_body w path ep port (tick_fs t) (of_nat n)) = of_nat (Suc n)"
    by (simp add: loop_body_read_ok running_def)
  from t have go: "\<not> IsAskedToQuit t \<and> \<not> quit_raft_service t" by (simp add: running_def)
  show ?case
    using Cons.IH [OF ts, of "Suc n"] body go
    by (simp add: case_prod_beta)
qed

text \<open>
  C4. Let every observation find the loop going on and the node list readable. Then the
  loop, started with the counter 0, is not left, has advanced the counter by one for each
  observation, and its iteration number \<open>k\<close> runs with the counter value \<open>t = k\<close>: the
  membership refresh is called exactly when \<open>t mod 10 = 0\<close>, the catch-up refresh exactly
  when \<open>t mod 3 = 0\<close> and then with the logging flag \<open>t mod 9 = 0\<close>, the snapshot exactly
  when \<open>t mod 60 = 0\<close>; the sleep of one second follows. The remainders are those of the
  64-bit counter of the source.
\<close>

theorem maintenance_cadence:
  assumes "list_all (running path_to_nodes) ts"
    and "maintenance_loop w path_to_nodes ep api_port ts 0 = (left, raft_counter, iterations)"
    and "k < length ts"
  shows "\<not> left \<and> raft_counter = of_nat (length ts) \<and> length iterations = length ts \<and>
     (let t = (of_nat k :: size_t); calls = iterations ! k in
        ((\<exists>cfg. Refresh_nodes cfg \<in> set calls) \<longleftrightarrow> t mod 10 = 0) \<and>
        (\<forall>b. Refresh_catchup_status b \<in> set calls \<longleftrightarrow> t mod 3 = 0 \<and> b = (t mod 9 = 0)) \<and>
        (Do_snapshot \<in> set calls \<longleftrightarrow> t mod 60 = 0) \<and>
        Sleep 1 \<in> set calls)"
proof -
  have run: "maintenance_loop w path_to_nodes ep api_port ts 0 =
      (False, of_nat (length ts),
       map (\<lambda>(k, t). snd (loop_body w path_to_nodes ep api_port (tick_fs t) (of_nat k)))
         (enumerate 0 ts))"
    using maintenance_loop_reads_ok [OF assms(1), of w ep api_port 0] by simp
  with assms(2) have l: "\<not> left" and c: "raft_counter = of_nat (length ts)"
    and i: "iterations =
       map (\<lambda>(k, t). snd (loop_body w path_to_nodes ep api_port (tick_fs t) (of_nat k)))
         (enumerate 0 ts)"
    by simp_all
  from assms(1) assms(3) have "running path_to_nodes (ts ! k)"
    by (simp add: list_all_length)
  then have ok: "\<not> isl (fetch_nodes_config (tick_fs (ts ! k)) path_to_nodes)"
    by (simp add: running_def)
  from i assms(3) have "iterations ! k =
      snd (loop_body w path_to_nodes ep api_port (tick_fs (ts ! k)) (of_nat k))"
    by (simp add: nth_enumerate_eq)
  then have calls: "iterations ! k =
      (if (of_nat k :: size_t) mod 10 = 0
       then [Refresh_nodes (to_nodes_config w ep api_port
               (projr (fetch_nodes_config (tick_fs (ts ! k)) path_to_nodes)))]
       else []) @ periodic_tasks (of_nat k)"
    by (simp add: loop_body_read_ok [OF ok])
  from i have len: "length iterations = length ts" by simp
  show ?thesis
    unfolding Let_def calls
    using l c len by (auto simp add: periodic_tasks_calls)
qed

theorem maintenance_cadence_witness:
  "list_all (running ''nodes'') ticks4 \<and>
   maintenance_loop (lan_world fs_none []) ''nodes'' (0x7F000001, 8107) 8108 ticks4 0 =
     (False, 4,
      [[Refresh_nodes ''10.0.0.1:8107:8108'', Refresh_catchup_status True, Do_snapshot, Sleep 1],
       [Sleep 1], [Sleep 1], [Refresh_catchup_status False, Sleep 1]]) \<and>
   (3 :: nat) < length ticks4 \<and>
   (3 :: size_t) mod 10 \<noteq> 0 \<and> (3 :: size_t) mod 3 = 0 \<and> (3 :: size_t) mod 9 \<noteq> 0 \<and>
   (3 :: size_t) mod 60 \<noteq> 0"
proof -
  have a: "list_all (running ''nodes'') ticks4"
    by (simp add: ticks4_def running_def tick_run_def fs_with_def fetch_nodes_config_def
          fetch_file_contents_def)
  have b: "maintenance_loop (lan_world fs_none []) ''nodes'' (0x7F000001, 8107) 8108 ticks4 0 =
     (False, 4,
      [[Refresh_nodes ''10.0.0.1:8107:8108'', Refresh_catchup_status True, Do_snapshot, Sleep 1],
       [Sleep 1], [Sleep 1], [Refresh_catchup_status False, Sleep 1]])"
    by (simp add: ticks4_def loop_body_def periodic_tasks_def tick_run_def fs_with_def
          fetch_nodes_config_def fetch_file_contents_def lan_world_def)
  have c: "(3 :: nat) < length ticks4" by (simp add: ticks4_def)
  from maintenance_cadence [OF a b c] a b c show ?thesis by simp
qed

text \<open>
  C2, at a failing read. The loop runs with the node list path \<^verbatim>\<open>nodes\<close>, the file is missing
  during two iterations, then the quit flag is seen. The counter is 0, so the catch-up
  refresh and the snapshot are due: but each of the two iterations only logs the warning,
  none of them sleeps, and the counter is still 0 when the loop is left. The
  \<^verbatim>\<open>continue\<close> of line 312 skips the rest of the body, the increment and the sleep.
\<close>

theorem refresh_failure_skips_rest_of_iteration:
  "(0 :: size_t) mod 3 = 0 \<and> (0 :: size_t) mod 60 = 0 \<and>
   maintenance_loop (lan_world (fs_with ''10.0.0.1:8107:8108'') []) ''nodes''
       (0x7F000001, 8107) 8108 [tick_run fs_none, tick_run fs_none, tick_quit] 0 =
     (True, 0,
      [[Log_warning (''Error while refreshing peer configuration: '' @
          ''Error reading file containing nodes configuration: '' @
          ''File does not exist at: nodes'')],
       [Log_warning (''Error while refreshing peer configuration: '' @
          ''Error reading file containing nodes configuration: '' @
          ''File does not exist at: nodes'')]])"
  by (simp add: loop_body_def tick_run_def tick_quit_def fs_none_def fetch_nodes_config_def
        fetch_file_contents_def)

subsection \<open>The shutdown of the peering thread\<close>

lemma loop_body_no_teardown:
  "filter teardown_call (snd (loop_body w path ep port fs t)) = []"
  by (simp add: loop_body_def periodic_tasks_def teardown_call_def split: sum.split prod.split)

lemma maintenance_loop_no_teardown:
  "filter teardown_call (concat (snd (snd (maintenance_loop w path ep port ts c)))) = []"
proof (induction ts arbitrary: c)
  case Nil
  show ?case by simp
next
  case (Cons t ts)
  show ?case
  proof (cases "\<not> IsAskedToQuit t \<and> \<not> quit_raft_service t")
    case False
    then show ?thesis by auto
  next
    case True
    obtain c' calls where b: "loop_body w path ep port (tick_fs t) c = (c', calls)"
      by (cases "loop_body w path ep port (tick_fs t) c")
    obtain l c'' its where m: "maintenance_loop w path ep port ts c' = (l, c'', its)"
      by (cases "maintenance_loop w path ep port ts c'")
    from loop_body_no_teardown [of w path ep port "tick_fs t" c] b
    have "filter teardown_call calls = []" by simp
    moreover from Cons.IH [of c'] m have "filter teardown_call (concat its) = []" by simp
    ultimately show ?thesis using True b m by simp
  qed
qed

lemma maintenance_loop_left:
  assumes "\<exists>t \<in> set ts. IsAskedToQuit t \<or> quit_raft_service t"
  shows "fst (maintenance_loop w path ep port ts c)"
  using assms
proof (induction ts arbitrary: c)
  case Nil
  then show ?case by simp
next
  case (Cons t ts)
  show ?case
  proof (cases "\<not> IsAskedToQuit t \<and> \<not> quit_raft_service t")
    case False
    then show ?thesis by auto
  next
    case True
    with Cons.prems have "\<exists>t \<in> set ts. IsAskedToQuit t \<or> quit_raft_service t" by auto
    from Cons.IH [OF this] True show ?thesis
      by (simp add: case_prod_beta)
  qed
qed

lemma peering_bootstrap_ok:
  assumes "fetch_nodes_config (boot_fs w) path = Inr nodes"
    and "resolve_peering_ip w addr subnet = Some (Some ip)"
    and "add_service w = 0" and "raft_server_Start w = 0" and "replication_state_start w = 0"
  shows "peering_bootstrap w sd path addr port subnet api snap =
           (Inr (ip, port),
            [Braft_add_service (ip, port), Raft_server_Start (ip, port),
             ReplicationState_start (ip, port) api 5000 snap sd nodes])"
  using assms by (simp add: peering_bootstrap_def Let_def)

lemma start_raft_server_returns:
  assumes "fetch_nodes_config (boot_fs w) path = Inr nodes"
    and "resolve_peering_ip w addr subnet = Some (Some ip)"
    and "add_service w = 0" and "raft_server_Start w = 0" and "replication_state_start w = 0"
    and "\<exists>t \<in> set (ticks w). IsAskedToQuit t \<or> quit_raft_service t"
  shows "fst (start_raft_server w sd path addr port subnet api snap) = Returns 0"
    and "filter teardown_call (snd (start_raft_server w sd path addr port subnet api snap)) =
           [ReplicationState_shutdown, Raft_server_Stop, Raft_server_Join]"
proof -
  obtain l c its where m: "maintenance_loop w path (ip, port) api (ticks w) 0 = (l, c, its)"
    by (cases "maintenance_loop w path (ip, port) api (ticks w) 0")
  from maintenance_loop_left [OF assms(6), of w path "(ip, port)" api 0] m have l: "l" by simp
  from maintenance_loop_no_teardown [of w path "(ip, port)" api "ticks w" 0] m
  have n: "filter teardown_call (concat its) = []" by simp
  show "fst (start_raft_server w sd path addr port subnet api snap) = Returns 0"
    using m l by (simp add: start_raft_server_def peering_bootstrap_ok [OF assms(1-5)])
  show "filter teardown_call (snd (start_raft_server w sd path addr port subnet api snap)) =
           [ReplicationState_shutdown, Raft_server_Stop, Raft_server_Join]"
    using m l n
    by (simp add: start_raft_server_def peering_bootstrap_ok [OF assms(1-5)] teardown_call_def)
qed

text \<open>
  C1, as amended. When the bootstrap succeeds and the quit flag is seen by the loop, the
  peering thread returns, and its shutdown calls are, in this order: the shutdown of the
  replication state, the stop and the join of the peering listener (the end of
  \<^verbatim>\<open>start_raft_server\<close>), and only then the stop of the batch indexer, the join of its thread,
  the shutdown of the request pool and of the application pool, and the stop of the API
  server.
\<close>

theorem peering_thread_teardown_order:
  assumes "fetch_nodes_config (boot_fs w) (get_nodes c) = Inr nodes"
    and "resolve_peering_ip w (get_peering_address c) (get_peering_subnet c) = Some (Some ip)"
    and "add_service w = 0" and "raft_server_Start w = 0" and "replication_state_start w = 0"
    and "\<exists>t \<in> set (ticks w). IsAskedToQuit t \<or> quit_raft_service t"
  shows "fst (raft_thread w c) = Returns () \<and>
         teardown_calls (snd (raft_thread w c)) =
           [ReplicationState_shutdown, Raft_server_Stop, Raft_server_Join,
            BatchedIndexer_stop, Thread_join ''batch_indexing_thread'',
            ThreadPool_shutdown ''server_thread_pool'',
            ThreadPool_shutdown ''app_thread_pool'', HttpServer_stop]"
proof -
  let ?s = "start_raft_server w (get_data_dir c @ ''/state'') (get_nodes c)
              (get_peering_address c) (get_peering_port c) (get_peering_subnet c)
              (get_api_port c) (get_snapshot_interval_seconds c)"
  obtain calls where s: "?s = (Returns 0, calls)"
    using start_raft_server_returns(1) [OF assms, of "get_data_dir c @ ''/state''"
        "get_peering_port c" "get_api_port c" "get_snapshot_interval_seconds c"]
    by (cases ?s) simp
  from start_raft_server_returns(2) [OF assms, of "get_data_dir c @ ''/state''"
        "get_peering_port c" "get_api_port c" "get_snapshot_interval_seconds c"] s
  have "filter teardown_call calls =
          [ReplicationState_shutdown, Raft_server_Stop, Raft_server_Join]" by simp
  with s show ?thesis
    by (simp add: raft_thread_def teardown_calls_def teardown_call_def)
qed

lemma lan_resolve:
  "resolve_peering_ip (lan_world fs ts) ''127.0.0.1'' [] = Some (Some 0x7F000001)"
  by (simp add: resolve_peering_ip_def lan_world_def)

theorem peering_thread_teardown_order_witness:
  "fetch_nodes_config (boot_fs (lan_world fs_none [tick_quit])) (get_nodes lan_config) = Inr [] \<and>
   resolve_peering_ip (lan_world fs_none [tick_quit]) (get_peering_address lan_config)
     (get_peering_subnet lan_config) = Some (Some 0x7F000001) \<and>
   quit_raft_service tick_quit \<and>
   fst (raft_thread (lan_world fs_none [tick_quit]) lan_config) = Returns () \<and>
   teardown_calls (snd (raft_thread (lan_world fs_none [tick_quit]) lan_config)) =
     [ReplicationState_shutdown, Raft_server_Stop, Raft_server_Join,
      BatchedIndexer_stop, Thread_join ''batch_indexing_thread'',
      ThreadPool_shutdown ''server_thread_pool'',
      ThreadPool_shutdown ''app_thread_pool'', HttpServer_stop]"
proof -
  let ?w = "lan_world fs_none [tick_quit]"
  have a: "fetch_nodes_config (boot_fs ?w) (get_nodes lan_config) = Inr []"
    by (simp add: fetch_nodes_config_def lan_config_def)
  have b: "resolve_peering_ip ?w (get_peering_address lan_config)
             (get_peering_subnet lan_config) = Some (Some 0x7F000001)"
    by (simp add: lan_config_def lan_resolve)
  have c: "add_service ?w = 0" "raft_server_Start ?w = 0" "replication_state_start ?w = 0"
    by (simp_all add: lan_world_def)
  have q: "quit_raft_service tick_quit" by (simp add: tick_quit_def)
  then have d: "\<exists>t \<in> set (ticks ?w). IsAskedToQuit t \<or> quit_raft_service t"
    by (simp add: lan_world_def)
  from peering_thread_teardown_order [OF a b c d] a b q show ?thesis by simp
qed

text \<open>
  C1 as stated fails: on the concrete machine, with the quit flag set at the first
  observation, the replication state and the peering listener are shut down before the
  batch indexer is stopped, not after the API server.
\<close>

theorem peering_thread_teardown_claimed_order_fails:
  "teardown_calls (snd (raft_thread (lan_world fs_none [tick_quit]) lan_config)) =
     [ReplicationState_shutdown, Raft_server_Stop, Raft_server_Join,
      BatchedIndexer_stop, Thread_join ''batch_indexing_thread'',
      ThreadPool_shutdown ''server_thread_pool'',
      ThreadPool_shutdown ''app_thread_pool'', HttpServer_stop] \<and>
   teardown_calls (snd (raft_thread (lan_world fs_none [tick_quit]) lan_config)) \<noteq>
     [BatchedIndexer_stop, Thread_join ''batch_indexing_thread'',
      ThreadPool_shutdown ''server_thread_pool'',
      ThreadPool_shutdown ''app_thread_pool'', HttpServer_stop,
      ReplicationState_shutdown, Raft_server_Stop, Raft_server_Join]"
  by (simp add: raft_thread_def start_raft_server_def peering_bootstrap_def
        resolve_peering_ip_def fetch_nodes_config_def lan_world_def lan_config_def
        tick_quit_def teardown_calls_def teardown_call_def Let_def)

subsection \<open>Start-up failures and exit statuses\<close>

lemma raft_thread_nodes_error:
  assumes "fetch_nodes_config (boot_fs w) (get_nodes c) = Inl (code, err)"
  shows "raft_thread w c = (Exits (- 1), [Thread_new ''batch_indexing_thread'', Log_error err])"
  using assms by (simp add: raft_thread_def start_raft_server_def peering_bootstrap_def)

text \<open>
  C6, as amended. When the data directory exists, the master option is not used and the
  configured node-list file exists but is empty, the process ends with \<^verbatim>\<open>exit(-1)\<close> after
  the configuration error is logged. The exit is made on the peering thread, whose only
  calls are the construction of the batch indexing thread and the error log: no peering
  listener and no replication state is started. Both worker pools and the peering thread
  have been constructed by the main thread before.
\<close>

theorem empty_node_list_aborts_after_threads:
  assumes "directory_exists w (get_data_dir c)" and "get_master c = []"
    and "get_nodes c \<noteq> []" and "file_exists (boot_fs w) (get_nodes c)"
    and "file_bytes (boot_fs w) (get_nodes c) = []"
  shows "fst (run_server w c) = Exits (- 1) \<and>
         snd (snd (run_server w c)) =
           [Thread_new ''batch_indexing_thread'',
            Log_error ''File containing nodes configuration is empty.''] \<and>
         ThreadPool_new ''app_thread_pool'' \<in> set (fst (snd (run_server w c))) \<and>
         ThreadPool_new ''server_thread_pool'' \<in> set (fst (snd (run_server w c))) \<and>
         last (fst (snd (run_server w c))) = Thread_new ''raft_thread''"
proof -
  from assms(3-5) have "fetch_nodes_config (boot_fs w) (get_nodes c) =
      Inl (500, ''File containing nodes configuration is empty.'')"
    by (simp add: fetch_nodes_config_def fetch_file_contents_def)
  then have "raft_thread w c =
      (Exits (- 1), [Thread_new ''batch_indexing_thread'',
                     Log_error ''File containing nodes configuration is empty.''])"
    by (rule raft_thread_nodes_error)
  with assms(1,2) show ?thesis
    by (simp add: run_server_def Let_def)
qed

theorem empty_node_list_aborts_after_threads_witness:
  "directory_exists (lan_world (fs_with []) []) ''/data'' \<and>
   file_exists (fs_with []) ''nodes'' \<and> file_bytes (fs_with []) ''nodes'' = [] \<and>
   fst (run_server (lan_world (fs_with []) []) (lan_config\<lparr>get_nodes := ''nodes''\<rparr>)) = Exits (- 1) \<and>
   snd (snd (run_server (lan_world (fs_with []) []) (lan_config\<lparr>get_nodes := ''nodes''\<rparr>))) =
     [Thread_new ''batch_indexing_thread'',
      Log_error ''File containing nodes configuration is empty.'']"
proof -
  let ?w = "lan_world (fs_with []) []" and ?c = "lan_config\<lparr>get_nodes := ''nodes''\<rparr>"
  have a: "directory_exists ?w (get_data_dir ?c)" and b: "get_master ?c = []"
    and c: "get_nodes ?c \<noteq> []" and d: "file_exists (boot_fs ?w) (get_nodes ?c)"
    and e: "file_bytes (boot_fs ?w) (get_nodes ?c) = []"
    by (simp_all add: lan_world_def lan_config_def fs_with_def)
  from empty_node_list_aborts_after_threads [OF a b c d e] a d e show ?thesis
    by (simp add: lan_world_def lan_config_def)
qed

text \<open>
  C6 as stated fails: on the concrete machine with an empty file \<^verbatim>\<open>nodes\<close>, the two
  worker pools, the peering thread and the batch indexing thread are constructed before the
  error is logged and the process exits.
\<close>

theorem empty_node_list_threads_before_abort:
  "run_server (lan_world (fs_with []) []) (lan_config\<lparr>get_nodes := ''nodes''\<rparr>) =
     (Exits (- 1),
      [Mallctl_background_thread, Quit_set False,
       ThreadPool_new ''app_thread_pool'', ThreadPool_new ''server_thread_pool'',
       Store_new ''/data/db'', Store_new ''/data/meta'', Curl_global_init, HttpClient_init,
       HttpServer_new, HttpServer_set_auth_handler,
       HttpServer_on ''STREAM_RESPONSE_MESSAGE'', HttpServer_on ''REQUEST_PROCEED_MESSAGE'',
       HttpServer_on ''DEFER_PROCESSING_MESSAGE'', BatchedIndexer_new,
       CollectionManager_init, ReplicationState_new, Thread_new ''raft_thread''],
      [Thread_new ''batch_indexing_thread'',
       Log_error ''File containing nodes configuration is empty.''])"
  by (simp add: run_server_def raft_thread_def start_raft_server_def peering_bootstrap_def
        fetch_nodes_config_def fetch_file_contents_def lan_world_def lan_config_def
        fs_with_def Let_def)

text \<open>
  C8, at an address that does not parse. \<^verbatim>\<open>start_raft_server\<close> logs the error and returns
  -1 without any call on the peering transport. The peering thread does not read that
  value: it goes on with its usual teardown, the main thread goes on to its own clean-up,
  and \<^verbatim>\<open>run_server\<close> returns the status of the request loop, whatever the parse gave;
  \<^verbatim>\<open>exit\<close> is not called. The failures of the node list above it and of the peering
  service below it do call \<^verbatim>\<open>exit(-1)\<close>.
\<close>

theorem unparsable_peering_address_is_not_fatal:
  "start_raft_server (lan_world fs_none [tick_quit]) ''/data/state'' [] ''not-an-ip'' 8107 []
       8108 3600 =
     (Returns (- 1), [Log_error ''Failed to parse peering address `not-an-ip`'']) \<and>
   run_server (lan_world fs_none [tick_quit]) (lan_config\<lparr>get_peering_address := ''not-an-ip''\<rparr>) =
     (Returns HttpServer_run,
      [Mallctl_background_thread, Quit_set False,
       ThreadPool_new ''app_thread_pool'', ThreadPool_new ''server_thread_pool'',
       Store_new ''/data/db'', Store_new ''/data/meta'', Curl_global_init, HttpClient_init,
       HttpServer_new, HttpServer_set_auth_handler,
       HttpServer_on ''STREAM_RESPONSE_MESSAGE'', HttpServer_on ''REQUEST_PROCEED_MESSAGE'',
       HttpServer_on ''DEFER_PROCESSING_MESSAGE'', BatchedIndexer_new,
       CollectionManager_init, ReplicationState_new, Thread_new ''raft_thread'',
       Master_server_routes, HttpServer_run_call, Quit_set True,
       Thread_join ''raft_thread'', BatchedIndexer_delete, Curl_global_cleanup,
       HttpServer_delete, CollectionManager_dispose],
      [Thread_new ''batch_indexing_thread'',
       Log_error ''Failed to parse peering address `not-an-ip`'',
       BatchedIndexer_stop, Thread_join ''batch_indexing_thread'',
       ThreadPool_shutdown ''server_thread_pool'',
       ThreadPool_shutdown ''app_thread_pool'', HttpServer_stop])"
  by (simp add: run_server_def raft_thread_def start_raft_server_def peering_bootstrap_def
        resolve_peering_ip_def fetch_nodes_config_def lan_world_def lan_config_def
        Let_def)

lemma run_server_outcome:
  assumes "directory_exists w (get_data_dir c)" and "get_master c = []"
  shows "fst (run_server w c) =
           (case fst (raft_thread w c) of
              Returns u \<Rightarrow> Returns HttpServer_run
            | Exits status \<Rightarrow> Exits status
            | Undefined \<Rightarrow> Undefined
            | Runs \<Rightarrow> Runs)"
  using assms by (simp add: run_server_def Let_def split: prod.split outcome.split)

lemma raft_thread_outcome:
  "fst (raft_thread w c) =
     (case fst (start_raft_server w (get_data_dir c @ ''/state'') (get_nodes c)
                  (get_peering_address c) (get_peering_port c) (get_peering_subnet c)
                  (get_api_port c) (get_snapshot_interval_seconds c)) of
        Returns status \<Rightarrow> Returns ()
      | Exits status \<Rightarrow> Exits status
      | Undefined \<Rightarrow> Undefined
      | Runs \<Rightarrow> Runs)"
  by (simp add: raft_thread_def split: prod.split outcome.split)

lemma start_raft_server_bootstrap_failure:
  assumes "fetch_nodes_config (boot_fs w) path = Inr nodes"
    and "resolve_peering_ip w addr subnet = Some (Some ip)"
    and "add_service w \<noteq> 0 \<or> raft_server_Start w \<noteq> 0 \<or> replication_state_start w \<noteq> 0"
  shows "fst (start_raft_server w sd path addr port subnet api snap) = Exits (- 1)"
  using assms by (auto simp add: start_raft_server_def peering_bootstrap_def Let_def)

text \<open>
  C9. \<^verbatim>\<open>run_server\<close> returns 1 when the data directory is missing and when the master
  option is used; \<^verbatim>\<open>init_root_logger\<close> returns 1 when the configured log directory is
  missing. When the node list is read and the peering address is resolved, a failure to
  register the peering service, to start the listener or to start the replication state
  ends the process with \<^verbatim>\<open>exit(-1)\<close>. When all three succeed and the quit flag is seen
  by the loop, \<^verbatim>\<open>run_server\<close> returns what the request loop returned, which is 0.
\<close>

theorem exit_statuses:
  "(\<not> directory_exists w (get_data_dir c) \<longrightarrow> fst (run_server w c) = Returns 1) \<and>
   (get_master c \<noteq> [] \<longrightarrow> fst (run_server w c) = Returns 1) \<and>
   (get_log_dir c \<noteq> [] \<and> \<not> directory_exists w (get_log_dir c) \<longrightarrow>
      fst (init_root_logger w c) = 1) \<and>
   (directory_exists w (get_data_dir c) \<and> get_master c = [] \<and>
    fetch_nodes_config (boot_fs w) (get_nodes c) = Inr nodes \<and>
    resolve_peering_ip w (get_peering_address c) (get_peering_subnet c) = Some (Some ip) \<longrightarrow>
      (add_service w \<noteq> 0 \<longrightarrow> fst (run_server w c) = Exits (- 1)) \<and>
      (add_service w = 0 \<and> raft_server_Start w \<noteq> 0 \<longrightarrow>
         fst (run_server w c) = Exits (- 1)) \<and>
      (add_service w = 0 \<and> raft_server_Start w = 0 \<and> replication_state_start w \<noteq> 0 \<longrightarrow>
         fst (run_server w c) = Exits (- 1)) \<and>
      (add_service w = 0 \<and> raft_server_Start w = 0 \<and> replication_state_start w = 0 \<and>
       (\<exists>t \<in> set (ticks w). IsAskedToQuit t \<or> quit_raft_service t) \<longrightarrow>
         fst (run_server w c) = Returns 0))"
proof -
  have data: "\<not> directory_exists w (get_data_dir c) \<longrightarrow> fst (run_server w c) = Returns 1"
    by (simp add: run_server_def Let_def)
  have master: "get_master c \<noteq> [] \<longrightarrow> fst (run_server w c) = Returns 1"
    by (simp add: run_server_def Let_def)
  have logger: "get_log_dir c \<noteq> [] \<and> \<not> directory_exists w (get_log_dir c) \<longrightarrow>
      fst (init_root_logger w c) = 1"
    by (simp add: init_root_logger_def Let_def)
  have peering: "fst (run_server w c) = Exits (- 1)"
    if "directory_exists w (get_data_dir c)" and "get_master c = []"
      and "fetch_nodes_config (boot_fs w) (get_nodes c) = Inr nodes"
      and "resolve_peering_ip w (get_peering_address c) (get_peering_subnet c) = Some (Some ip)"
      and "add_service w \<noteq> 0 \<or> raft_server_Start w \<noteq> 0 \<or> replication_state_start w \<noteq> 0"
    using that(1,2) start_raft_server_bootstrap_failure [OF that(3,4,5)]
    by (simp add: run_server_outcome raft_thread_outcome)
  have normal: "fst (run_server w c) = Returns 0"
    if "directory_exists w (get_data_dir c)" and "get_master c = []"
      and "fetch_nodes_config (boot_fs w) (get_nodes c) = Inr nodes"
      and "resolve_peering_ip w (get_peering_address c) (get_peering_subnet c) = Some (Some ip)"
      and "add_service w = 0" and "raft_server_Start w = 0" and "replication_state_start w = 0"
      and "\<exists>t \<in> set (ticks w). IsAskedToQuit t \<or> quit_raft_service t"
    using that(1,2) start_raft_server_returns(1) [OF that(3-8)]
    by (simp add: run_server_outcome raft_thread_outcome HttpServer_run_def)
  from data master logger peering normal show ?thesis by blast
qed

theorem exit_statuses_witness:
  "fst (run_server (lan_world fs_none [tick_quit]) (lan_config\<lparr>get_data_dir := ''/missing''\<rparr>)) =
     Returns 1 \<and>
   fst (run_server (lan_world fs_none [tick_quit]) (lan_config\<lparr>get_master := ''http://10.0.0.9:8108''\<rparr>)) =
     Returns 1 \<and>
   fst (init_root_logger (lan_world fs_none [tick_quit]) (lan_config\<lparr>get_log_dir := ''/missing''\<rparr>)) = 1 \<and>
   fst (run_server (lan_world fs_none [tick_quit]\<lparr>add_service := - 1\<rparr>) lan_config) = Exits (- 1) \<and>
   fst (run_server (lan_world fs_none [tick_quit]\<lparr>raft_server_Start := - 1\<rparr>) lan_config) =
     Exits (- 1) \<and>
   fst (run_server (lan_world fs_none [tick_quit]\<lparr>replication_state_start := 1\<rparr>) lan_config) =
     Exits (- 1) \<and>
   fst (run_server (lan_world fs_none [tick_quit]) lan_config) = Returns 0"
proof -
  let ?w = "lan_world fs_none [tick_quit]"
  have n: "fetch_nodes_config fs_none [] = Inr []"
    by (simp add: fetch_nodes_config_def)
  have r: "resolve_peering_ip (?w\<lparr>add_service := a, raft_server_Start := b,
      replication_state_start := d\<rparr>) ''127.0.0.1'' [] = Some (Some 0x7F000001)" for a b d
    by (simp add: resolve_peering_ip_def lan_world_def)
  have q: "quit_raft_service tick_quit" by (simp add: tick_quit_def)
  have 1: "fst (run_server ?w (lan_config\<lparr>get_data_dir := ''/missing''\<rparr>)) = Returns 1"
    using exit_statuses [where w = ?w and c = "lan_config\<lparr>get_data_dir := ''/missing''\<rparr>"]
    by (simp add: lan_world_def lan_config_def)
  have 2: "fst (run_server ?w (lan_config\<lparr>get_master := ''http://10.0.0.9:8108''\<rparr>)) = Returns 1"
    using exit_statuses [where w = ?w and c = "lan_config\<lparr>get_master := ''http://10.0.0.9:8108''\<rparr>"]
    by (simp add: lan_world_def lan_config_def)
  have 3: "fst (init_root_logger ?w (lan_config\<lparr>get_log_dir := ''/missing''\<rparr>)) = 1"
    using exit_statuses [where w = ?w and c = "lan_config\<lparr>get_log_dir := ''/missing''\<rparr>"]
    by (simp add: lan_world_def lan_config_def)
  have 4: "fst (run_server (?w\<lparr>add_service := - 1\<rparr>) lan_config) = Exits (- 1)"
    using n r [where a = "- 1" and b = 0 and d = 0] exit_statuses [where w = "?w\<lparr>add_service := - 1\<rparr>" and c = lan_config
        and nodes = "[]" and ip = "0x7F000001"]
    by (simp add: lan_world_def lan_config_def)
  have 5: "fst (run_server (?w\<lparr>raft_server_Start := - 1\<rparr>) lan_config) = Exits (- 1)"
    using n r [where a = 0 and b = "- 1" and d = 0] exit_statuses [where w = "?w\<lparr>raft_server_Start := - 1\<rparr>" and c = lan_config
        and nodes = "[]" and ip = "0x7F000001"]
    by (simp add: lan_world_def lan_config_def)
  have 6: "fst (run_server (?w\<lparr>replication_state_start := 1\<rparr>) lan_config) = Exits (- 1)"
    using n r [where a = 0 and b = 0 and d = 1] exit_statuses [where w = "?w\<lparr>replication_state_start := 1\<rparr>" and c = lan_config
        and nodes = "[]" and ip = "0x7F000001"]
    by (simp add: lan_world_def lan_config_def)
  have 7: "fst (run_server ?w lan_config) = Returns 0"
    using exit_statuses [where w = ?w and c = lan_config
        and nodes = "[]" and ip = "0x7F000001"] n r [where a = 0 and b = 0 and d = 0] q
    by (simp add: lan_world_def lan_config_def)
  from 1 2 3 4 5 6 7 show ?thesis by simp
qed

subsection \<open>The quit flag\<close>



























end
